theory Spec2Isabelle
  imports Complex_Main
begin

section \<open>Python values\<close>

text \<open>
  A Python \<open>str\<close> is a sequence of Unicode code points; a code point is a natural number.
  \<open>lit\<close> turns an ASCII literal of the source into such a sequence.
\<close>

type_synonym pystr = "nat list"

definition lit :: "string \<Rightarrow> pystr" where
  "lit s = map of_char s"

text \<open>
  \<open>str.isspace\<close> for one code point: the characters \<open>str.strip()\<close> removes when it is
  called with no argument.
\<close>

definition isspace :: "nat \<Rightarrow> bool" where
  "isspace c \<longleftrightarrow>
     (9 \<le> c \<and> c \<le> 13) \<or> (28 \<le> c \<and> c \<le> 32) \<or> c = 133 \<or> c = 160 \<or> c = 5760 \<or>
     (8192 \<le> c \<and> c \<le> 8202) \<or> c = 8232 \<or> c = 8233 \<or> c = 8239 \<or> c = 8287 \<or> c = 12288"

definition strip :: "pystr \<Rightarrow> pystr" where
  "strip s = rev (dropWhile isspace (rev (dropWhile isspace s)))"

text \<open>\<open>str(n)\<close> for an integer, as an f-string prints it: decimal digits, a minus sign first.\<close>

fun str_nat :: "nat \<Rightarrow> pystr" where
  "str_nat n = (if n < 10 then [48 + n] else str_nat (n div 10) @ [48 + n mod 10])"

declare str_nat.simps [simp del]

definition str_int :: "int \<Rightarrow> pystr" where
  "str_int i = (if i < 0 then 45 # str_nat (nat (- i)) else str_nat (nat i))"

text \<open>
  The exceptions that occur. \<open>ValueError\<close> is what the input checks of codex.py raise,
  \<open>Exception\<close> is what it raises for every other failure (and stands for any exception of
  a library that is neither of the other two), \<open>TypeError\<close> is raised by the index alone.
  All three are caught by \<open>except Exception\<close>; \<open>str_exn\<close> is \<open>str(e)\<close>.
\<close>

datatype exn = ValueError pystr | TypeError pystr | Exception pystr

fun str_exn :: "exn \<Rightarrow> pystr" where
  "str_exn (ValueError m) = m"
| "str_exn (TypeError m) = m"
| "str_exn (Exception m) = m"

section \<open>memory\_model.py\<close>

type_synonym vec = "real list"

datatype mval = MStr pystr | MFloat real

type_synonym metadata = "pystr \<rightharpoonup> mval"

record Memory =
  mem_id :: pystr
  content :: pystr
  embedding :: vec
  metadata :: metadata
  timestamp :: real

section \<open>The external services\<close>

text \<open>
  The embedding model (\<open>SentenceTransformer\<close> in codex.py) is an object outside the
  repository: it has a state of its own and one method, \<open>encode\<close>, which returns a vector
  or raises and may change that state. Nothing else is assumed of it. Vectors of floats
  are vectors of reals here.
\<close>

record 'm embedding_model =
  model_state :: 'm
  encode_method :: "'m \<Rightarrow> pystr \<Rightarrow> (exn + vec) \<times> 'm"

definition encode :: "'m embedding_model \<Rightarrow> pystr \<Rightarrow> (exn + vec) \<times> 'm embedding_model" where
  "encode em text =
     (case encode_method em (model_state em) text of
        (r, st) \<Rightarrow> (r, em\<lparr>model_state := st\<rparr>))"

text \<open>
  Modelled from the spec: the persistent vector index (the ChromaDB client and its
  collection, an external library that is not among the sources). A collection is the
  sequence of its entries in insertion order, one entry per \<open>collection.add\<close>. What the
  spec leaves to the library is a parameter, the record \<open>chroma\<close>: when \<open>add\<close> and
  \<open>query\<close> raise (and what), and the distance the nearest-neighbour search uses. A
  successful \<open>add\<close> appends the entry; a successful \<open>query\<close> returns, for its one query
  vector, the documents of the \<open>n_results\<close> entries nearest to it, nearest first, entries at
  equal distance in insertion order; \<open>count\<close> is the number of entries and never fails.
  The search is exact: the approximation and the rounding of the library's index are
  not modelled.
\<close>

record row =
  row_id :: pystr
  row_embedding :: vec
  row_document :: pystr
  row_metadata :: metadata

record chroma =
  add_error :: "row list \<Rightarrow> row \<Rightarrow> exn option"
  query_error :: "row list \<Rightarrow> vec \<Rightarrow> int \<Rightarrow> exn option"
  distance :: "vec \<Rightarrow> vec \<Rightarrow> real"

definition collection_add :: "chroma \<Rightarrow> row list \<Rightarrow> row \<Rightarrow> exn + row list" where
  "collection_add db rows r =
     (case add_error db rows r of
        Some e \<Rightarrow> Inl e
      | None \<Rightarrow> Inr (rows @ [r]))"

definition nearest :: "chroma \<Rightarrow> row list \<Rightarrow> vec \<Rightarrow> nat \<Rightarrow> row list" where
  "nearest db rows q n = take n (sort_key (\<lambda>r. distance db q (row_embedding r)) rows)"

definition collection_query :: "chroma \<Rightarrow> row list \<Rightarrow> vec \<Rightarrow> int \<Rightarrow> exn + pystr list list" where
  "collection_query db rows q n_results =
     (case query_error db rows q n_results of
        Some e \<Rightarrow> Inl e
      | None \<Rightarrow> Inr [map row_document (nearest db rows q (nat n_results))])"

definition collection_count :: "row list \<Rightarrow> int" where
  "collection_count rows = int (length rows)"

section \<open>codex.py\<close>

record 'm Codex =
  client :: chroma
  collection :: "row list"
  embedding_model :: "'m embedding_model"

text \<open>
  \<open>Codex.add_memory\<close>. The fresh \<open>uuid.uuid4()\<close> and the reading of \<open>time.time()\<close> are
  inputs from the environment, passed as \<open>uuid\<close> and \<open>now\<close>. The result is what the call
  returns or raises, with the state of the object afterwards.
\<close>

definition add_memory ::
  "'m Codex \<Rightarrow> pystr \<Rightarrow> metadata option \<Rightarrow> pystr \<Rightarrow> real \<Rightarrow> (exn + Memory) \<times> 'm Codex" where
  "add_memory self text md uuid now =
     (if strip text = [] then
        (Inl (ValueError (lit ''Memory content cannot be empty'')), self)
      else
        case encode (embedding_model self) text of
          (Inl e, em) \<Rightarrow>
            (Inl (Exception (lit ''Failed to generate embedding: '' @ str_exn e)),
             self\<lparr>embedding_model := em\<rparr>)
        | (Inr emb, em) \<Rightarrow>
            (let memory = \<lparr>mem_id = uuid, content = text, embedding = emb,
                            metadata = (case md of None \<Rightarrow> Map.empty | Some m \<Rightarrow> m),
                            timestamp = now\<rparr>;
                 entry = \<lparr>row_id = mem_id memory, row_embedding = embedding memory,
                           row_document = content memory,
                           row_metadata =
                             [lit ''timestamp'' \<mapsto> MFloat (timestamp memory)] ++ metadata memory\<rparr>
             in case collection_add (client self) (collection self) entry of
                  Inl e \<Rightarrow>
                    (Inl (Exception (lit ''Failed to store memory in database: '' @ str_exn e)),
                     self\<lparr>embedding_model := em\<rparr>)
                | Inr c \<Rightarrow>
                    (Inr memory, self\<lparr>embedding_model := em, collection := c\<rparr>)))"

text \<open>\<open>Codex.retrieve_memory\<close>; \<open>top_k\<close> is a Python integer and may be negative.\<close>

definition retrieve_memory ::
  "'m Codex \<Rightarrow> pystr \<Rightarrow> int \<Rightarrow> (exn + pystr list) \<times> 'm Codex" where
  "retrieve_memory self query top_k =
     (if strip query = [] then
        (Inl (ValueError (lit ''Query cannot be empty'')), self)
      else if top_k \<le> 0 then
        (Inl (ValueError (lit ''top_k must be a positive integer'')), self)
      else
        case encode (embedding_model self) query of
          (Inl e, em) \<Rightarrow>
            (Inl (Exception (lit ''Failed to generate query embedding: '' @ str_exn e)),
             self\<lparr>embedding_model := em\<rparr>)
        | (Inr query_embedding, em) \<Rightarrow>
            (case collection_query (client self) (collection self) query_embedding
                    (min top_k (collection_count (collection self))) of
               Inl e \<Rightarrow>
                 (Inl (Exception (lit ''Failed to retrieve memories: '' @ str_exn e)),
                  self\<lparr>embedding_model := em\<rparr>)
             | Inr documents \<Rightarrow>
                 (Inr (case documents of [] \<Rightarrow> [] | d # _ \<Rightarrow> d),
                  self\<lparr>embedding_model := em\<rparr>)))"

definition get_memory_count :: "'m Codex \<Rightarrow> int" where
  "get_memory_count self = collection_count (collection self)"

text \<open>
  \<open>Codex.clear_memories\<close>: the collection is deleted and created again under the same
  name, so the object holds a collection with no entry.
\<close>

definition clear_memories :: "'m Codex \<Rightarrow> 'm Codex" where
  "clear_memories self = self\<lparr>collection := []\<rparr>"

section \<open>synaptic\_loop.py\<close>

text \<open>What the methods print, one constructor for each \<open>print\<close> site, with the data it shows.\<close>

datatype line =
    WarnEmptyInput
  | ProcessingInput pystr
  | StoredMemory pystr
  | FailedToStore pystr
  | CouldNotRetrieve pystr
  | RunningCycle
  | CognitiveState "pystr set" "pystr option" int
  | BeliefsCleared

record 'm SynapticLoop =
  codex :: "'m Codex"
  beliefs :: "pystr set"
  current_intention :: "pystr option"
  stdout :: "line list"

text \<open>\<open>SynapticLoop.__init__\<close>, over the \<open>Codex\<close> it has opened.\<close>

definition init :: "'m Codex \<Rightarrow> 'm SynapticLoop" where
  "init cx = \<lparr>codex = cx, beliefs = {}, current_intention = None, stdout = []\<rparr>"

definition input_belief :: "pystr \<Rightarrow> pystr" where
  "input_belief new_input = lit ''The user recently said: '' @ new_input"

definition context_belief :: "pystr list \<Rightarrow> pystr" where
  "context_belief related_memories =
     lit ''I have '' @ str_int (int (length related_memories)) @
     lit '' related memories about similar topics''"

definition update_beliefs :: "'m SynapticLoop \<Rightarrow> pystr \<Rightarrow> 'm SynapticLoop" where
  "update_beliefs self new_input =
     (let self1 = self\<lparr>beliefs := insert (input_belief new_input) (beliefs self)\<rparr>
      in case retrieve_memory (codex self1) new_input 3 of
           (Inr related_memories, cx) \<Rightarrow>
             if related_memories \<noteq> [] then
               self1\<lparr>codex := cx,
                     beliefs := insert (context_belief related_memories) (beliefs self1)\<rparr>
             else self1\<lparr>codex := cx\<rparr>
         | (Inl e, cx) \<Rightarrow>
             self1\<lparr>codex := cx, stdout := stdout self1 @ [CouldNotRetrieve (str_exn e)]\<rparr>)"

text \<open>The three statements \<open>_deliberate\<close> can return.\<close>

definition await_input :: pystr where
  "await_input = lit ''Await new sensory input to form beliefs and determine actions.''"

definition counted_intention :: "int \<Rightarrow> pystr" where
  "counted_intention memory_count =
     lit ''Formulate a response based on recent input and '' @ str_int memory_count @
     lit '' stored memories.''"

definition uncounted_intention :: pystr where
  "uncounted_intention = lit ''Formulate a response based on recent input and related memories.''"

definition deliberate :: "'m SynapticLoop \<Rightarrow> pystr" where
  "deliberate self =
     (if beliefs self = {} then await_input
      else
        let memory_count = get_memory_count (codex self)
        in if memory_count > 0 then counted_intention memory_count
           else uncounted_intention)"

definition display_cognitive_state :: "'m SynapticLoop \<Rightarrow> 'm SynapticLoop" where
  "display_cognitive_state self =
     self\<lparr>stdout := stdout self @
       [CognitiveState (beliefs self) (current_intention self) (get_memory_count (codex self))]\<rparr>"

definition run_cycle :: "'m SynapticLoop \<Rightarrow> 'm SynapticLoop" where
  "run_cycle self =
     (let self1 = self\<lparr>stdout := stdout self @ [RunningCycle]\<rparr>;
          new_intention = deliberate self1
      in display_cognitive_state (self1\<lparr>current_intention := Some new_intention\<rparr>))"

text \<open>
  \<open>SynapticLoop.process_sensory_input\<close>. The first component is how the call ends for its
  caller: \<open>Inr ()\<close> is a normal return, \<open>Inl e\<close> would be the exception \<open>e\<close> leaving the
  method. The metadata is the dictionary literal of the source.
\<close>

definition sensory_metadata :: metadata where
  "sensory_metadata =
     [lit ''type'' \<mapsto> MStr (lit ''sensory_input''), lit ''source'' \<mapsto> MStr (lit ''user_input'')]"

definition process_sensory_input ::
  "'m SynapticLoop \<Rightarrow> pystr \<Rightarrow> pystr \<Rightarrow> real \<Rightarrow> (exn + unit) \<times> 'm SynapticLoop" where
  "process_sensory_input self text_input uuid now =
     (if strip text_input = [] then
        (Inr (), self\<lparr>stdout := stdout self @ [WarnEmptyInput]\<rparr>)
      else
        let self1 = self\<lparr>stdout := stdout self @
                      [ProcessingInput (take 100 text_input @
                         (if length text_input > 100 then lit ''...'' else []))]\<rparr>
        in case add_memory (codex self1) text_input (Some sensory_metadata) uuid now of
             (Inl e, cx) \<Rightarrow>
               (Inr (), self1\<lparr>codex := cx, stdout := stdout self1 @ [FailedToStore (str_exn e)]\<rparr>)
           | (Inr memory, cx) \<Rightarrow>
               (let self2 = self1\<lparr>codex := cx,
                                  stdout := stdout self1 @ [StoredMemory (take 8 (mem_id memory))]\<rparr>
                in (Inr (), run_cycle (update_beliefs self2 text_input))))"

definition get_beliefs :: "'m SynapticLoop \<Rightarrow> pystr set" where
  "get_beliefs self = beliefs self"

definition get_current_intention :: "'m SynapticLoop \<Rightarrow> pystr option" where
  "get_current_intention self = current_intention self"

definition clear_beliefs :: "'m SynapticLoop \<Rightarrow> 'm SynapticLoop" where
  "clear_beliefs self = self\<lparr>beliefs := {}, stdout := stdout self @ [BeliefsCleared]\<rparr>"

section \<open>The error kinds of the specification\<close>

text \<open>
  codex.py has no exception classes of its own. Its invalid-input error is \<open>ValueError\<close>;
  its storage failure is the \<open>Exception\<close> whose message starts with the text the two
  \<open>except\<close> clauses around the collection put before the cause.
\<close>

fun invalid_input :: "exn \<Rightarrow> bool" where
  "invalid_input (ValueError m) = True"
| "invalid_input (TypeError m) = False"
| "invalid_input (Exception m) = False"

definition starts_with :: "pystr \<Rightarrow> pystr \<Rightarrow> bool" where
  "starts_with p s \<longleftrightarrow> take (length p) s = p"

fun storage_failure :: "exn \<Rightarrow> bool" where
  "storage_failure (ValueError m) = False"
| "storage_failure (TypeError m) = False"
| "storage_failure (Exception m) =
     (starts_with (lit ''Failed to store memory in database: '') m \<or>
      starts_with (lit ''Failed to retrieve memories: '') m)"

section \<open>Instances of the external services\<close>

text \<open>
  A provider that answers every call from one function of the text, and one that does so
  on its first call and raises on every later call. \<open>length_embed\<close> maps texts of equal
  length to one vector, \<open>wide_embed\<close> returns vectors of three components, \<open>failing_embed\<close>
  always raises.
\<close>

definition pure_model :: "(pystr \<Rightarrow> exn + vec) \<Rightarrow> unit embedding_model" where
  "pure_model f = \<lparr>model_state = (), encode_method = (\<lambda>st text. (f text, st))\<rparr>"

definition once_model :: "(pystr \<Rightarrow> exn + vec) \<Rightarrow> nat embedding_model" where
  "once_model f =
     \<lparr>model_state = 0,
      encode_method = (\<lambda>k text.
        (if k = 0 then f text else Inl (Exception (lit ''model unavailable'')), Suc k))\<rparr>"

definition length_embed :: "pystr \<Rightarrow> exn + vec" where
  "length_embed text = Inr [real (length text), 1]"


definition failing_embed :: "pystr \<Rightarrow> exn + vec" where
  "failing_embed text = Inl (Exception (lit ''model unavailable''))"

text \<open>
  The ChromaDB persistent client as the library behaves while storage itself does not
  fail. The distance is the squared Euclidean one (codex.py creates the collection with
  no distance setting). The dimensionality of a collection is that of its first entry;
  \<open>add\<close> and \<open>query\<close> refuse a vector of another length, and \<open>query\<close> refuses, before
  anything else, a number of results that is not positive.
\<close>

definition l2 :: "vec \<Rightarrow> vec \<Rightarrow> real" where
  "l2 u v = sum_list (map (\<lambda>(a, b). (a - b) * (a - b)) (zip u v))"

definition collection_dimension :: "row list \<Rightarrow> nat option" where
  "collection_dimension rows =
     (case rows of [] \<Rightarrow> None | r # _ \<Rightarrow> Some (length (row_embedding r)))"

definition dimension_mismatch :: "row list \<Rightarrow> vec \<Rightarrow> bool" where
  "dimension_mismatch rows v \<longleftrightarrow>
     (case collection_dimension rows of None \<Rightarrow> False | Some d \<Rightarrow> length v \<noteq> d)"

definition dimension_error :: "row list \<Rightarrow> vec \<Rightarrow> exn" where
  "dimension_error rows v =
     Exception (lit ''Embedding dimension '' @ str_int (int (length v)) @
       lit '' does not match collection dimensionality '' @
       str_int (int (case collection_dimension rows of None \<Rightarrow> 0 | Some d \<Rightarrow> d)))"

definition persistent_client :: chroma where
  "persistent_client =
     \<lparr>add_error = (\<lambda>rows r.
        if dimension_mismatch rows (row_embedding r)
        then Some (dimension_error rows (row_embedding r))
        else None),
      query_error = (\<lambda>rows q n.
        if n \<le> 0
        then Some (TypeError (lit ''Number of requested results '' @ str_int n @
                     lit '', cannot be negative, or zero.''))
        else if dimension_mismatch rows q
        then Some (dimension_error rows q)
        else None),
      distance = l2\<rparr>"


text \<open>
  The entry \<open>add_memory\<close> hands to \<open>collection.add\<close> for a content, its vector, the
  metadata, the id and the time.
\<close>

definition stored_row :: "pystr \<Rightarrow> vec \<Rightarrow> pystr \<Rightarrow> metadata option \<Rightarrow> real \<Rightarrow> row" where
  "stored_row uuid v text md now =
     \<lparr>row_id = uuid, row_embedding = v, row_document = text,
      row_metadata =
        [lit ''timestamp'' \<mapsto> MFloat now] ++ (case md of None \<Rightarrow> Map.empty | Some m \<Rightarrow> m)\<rparr>"

text \<open>
  What the claim on embedding spaces needs of an index: it refuses, in \<open>add\<close> and in
  \<open>query\<close>, every vector whose length is not the dimensionality of the collection.
\<close>

definition rejects_mismatch :: "chroma \<Rightarrow> bool" where
  "rejects_mismatch db \<longleftrightarrow>
     (\<forall>rows r. dimension_mismatch rows (row_embedding r) \<longrightarrow> add_error db rows r \<noteq> None) \<and>
     (\<forall>rows q n. dimension_mismatch rows q \<longrightarrow> query_error db rows q n \<noteq> None)"

text \<open>
  States of the repository: empty; holding the one record \<open>hello\<close>, which is where
  \<open>add_memory\<close> of \<open>hello\<close> takes the empty one (\<open>hello_codex_reached\<close>); the same with a
  provider of another dimensionality, over the ChromaDB client and over the index that
  refuses nothing; and empty ones whose provider fails always, or on
  every call after the first.
\<close>

definition empty_codex :: "unit Codex" where
  "empty_codex =
     \<lparr>client = persistent_client, collection = [], embedding_model = pure_model length_embed\<rparr>"

definition hello_row :: row where
  "hello_row = \<lparr>row_id = lit ''id0'', row_embedding = [5, 1], row_document = lit ''hello'',
     row_metadata = [lit ''timestamp'' \<mapsto> MFloat 0] ++ Map.empty\<rparr>"

definition hello_codex :: "unit Codex" where
  "hello_codex =
     \<lparr>client = persistent_client, collection = [hello_row],
      embedding_model = pure_model length_embed\<rparr>"



definition failing_codex :: "unit Codex" where
  "failing_codex =
     \<lparr>client = persistent_client, collection = [], embedding_model = pure_model failing_embed\<rparr>"

definition flaky_codex :: "nat Codex" where
  "flaky_codex =
     \<lparr>client = persistent_client, collection = [], embedding_model = once_model length_embed\<rparr>"

section \<open>Facts about the Codex\<close>

lemma dropWhile_all: "(\<forall>x\<in>set (dropWhile P s). P x) \<longleftrightarrow> (\<forall>c \<in> set s. P c)"
  by (induction s) auto

lemma strip_empty_iff: "strip s = [] \<longleftrightarrow> (\<forall>c \<in> set s. isspace c)"
  by (simp add: strip_def dropWhile_eq_Nil_conv dropWhile_all)

lemma starts_with_append [simp]: "starts_with p (p @ s)"
  by (simp add: starts_with_def)

lemma add_memory_empty:
  "strip text = [] \<Longrightarrow>
   add_memory self text md uuid now =
     (Inl (ValueError (lit ''Memory content cannot be empty'')), self)"
  by (simp add: add_memory_def)

lemma add_memory_Inl:
  assumes "add_memory self text md uuid now = (Inl e, cx)"
  shows "collection cx = collection self \<and> client cx = client self"
  using assms
  by (auto simp: add_memory_def Let_def encode_def split: if_splits prod.splits sum.splits)

lemma add_memory_Inr:
  assumes "add_memory self text md uuid now = (Inr m, cx)"
  shows "strip text \<noteq> [] \<and> content m = text \<and> mem_id m = uuid \<and>
         fst (encode (embedding_model self) text) = Inr (embedding m) \<and>
         embedding_model cx = snd (encode (embedding_model self) text) \<and>
         client cx = client self \<and>
         (\<exists>entry. row_document entry = text \<and> row_embedding entry = embedding m \<and>
            row_id entry = uuid \<and>
            add_error (client self) (collection self) entry = None \<and>
            collection cx = collection self @ [entry])"
  using assms
  by (auto simp: add_memory_def Let_def collection_add_def
           split: if_splits prod.splits sum.splits option.splits)

lemma add_memory_count:
  assumes "add_memory self text md uuid now = (Inr m, cx)"
  shows "get_memory_count cx = get_memory_count self + 1"
  using add_memory_Inr [OF assms]
  by (auto simp: get_memory_count_def collection_count_def)

lemma retrieve_memory_frame:
  "collection (snd (retrieve_memory self query top_k)) = collection self \<and>
   client (snd (retrieve_memory self query top_k)) = client self"
  by (auto simp: retrieve_memory_def split: prod.splits sum.splits)

lemma retrieve_memory_count:
  "get_memory_count (snd (retrieve_memory self q k)) = get_memory_count self"
  by (simp add: get_memory_count_def retrieve_memory_frame)

lemma retrieve_memory_empty:
  "strip query = [] \<Longrightarrow>
   retrieve_memory self query top_k = (Inl (ValueError (lit ''Query cannot be empty'')), self)"
  by (simp add: retrieve_memory_def)

lemma top_k_not_positive:
  assumes "strip q \<noteq> []" and "top_k \<le> 0"
  shows "retrieve_memory self q top_k =
           (Inl (ValueError (lit ''top_k must be a positive integer'')), self)"
  using assms by (simp add: retrieve_memory_def)

lemma length_nearest: "length (nearest db rows q n) = min n (length rows)"
  by (simp add: nearest_def min.commute)

lemma set_nearest: "set (nearest db rows q n) \<subseteq> set rows"
  using set_take_subset [of n "sort_key (\<lambda>r. distance db q (row_embedding r)) rows"]
  by (simp add: nearest_def)

lemma nearest_one:
  assumes "rows \<noteq> []"
  shows "\<exists>r. nearest db rows q 1 = [r] \<and> r \<in> set rows \<and>
             (\<forall>r' \<in> set rows. distance db q (row_embedding r) \<le> distance db q (row_embedding r'))"
proof -
  let ?f = "\<lambda>r. distance db q (row_embedding r)"
  have "length (sort_key ?f rows) = length rows" by simp
  with assms obtain y ys where ys: "sort_key ?f rows = y # ys"
    by (cases "sort_key ?f rows") auto
  have "set (y # ys) = set rows" using ys [symmetric] by simp
  moreover have "sorted (map ?f (y # ys))" using ys [symmetric] by simp
  ultimately have "y \<in> set rows" "\<forall>r' \<in> set rows. ?f y \<le> ?f r'"
    by auto
  with ys show ?thesis by (simp add: nearest_def)
qed

lemma retrieve_memory_ok:
  assumes "strip q \<noteq> []" "top_k > 0" "encode (embedding_model self) q = (Inr v, em)"
    and "query_error (client self) (collection self) v (min top_k (int (length (collection self)))) = None"
  shows "retrieve_memory self q top_k =
     (Inr (map row_document
            (nearest (client self) (collection self) v (nat (min top_k (int (length (collection self))))))),
      self\<lparr>embedding_model := em\<rparr>)"
  using assms
  by (simp add: retrieve_memory_def collection_query_def collection_count_def)

lemma retrieve_memory_query_error:
  assumes "strip q \<noteq> []" "top_k > 0" "encode (embedding_model self) q = (Inr v, em)"
    and "query_error (client self) (collection self) v (min top_k (int (length (collection self)))) = Some e"
  shows "retrieve_memory self q top_k =
     (Inl (Exception (lit ''Failed to retrieve memories: '' @ str_exn e)),
      self\<lparr>embedding_model := em\<rparr>)"
  using assms
  by (simp add: retrieve_memory_def collection_query_def collection_count_def)

lemma retrieve_memory_Inr:
  assumes "retrieve_memory self q top_k = (Inr docs, cx)"
  shows "strip q \<noteq> [] \<and> top_k > 0 \<and>
     (\<exists>v. fst (encode (embedding_model self) q) = Inr v \<and>
        query_error (client self) (collection self) v (min top_k (int (length (collection self)))) = None \<and>
        docs = map row_document
            (nearest (client self) (collection self) v (nat (min top_k (int (length (collection self)))))))"
  using assms
  by (auto simp: retrieve_memory_def collection_query_def collection_count_def
           split: if_splits prod.splits sum.splits option.splits)

lemma add_memory_reaches_index:
  assumes "strip text \<noteq> []" and "encode (embedding_model self) text = (Inr v, em)"
  shows "add_memory self text md uuid now =
     (case add_error (client self) (collection self) (stored_row uuid v text md now) of
        Some e \<Rightarrow>
          (Inl (Exception (lit ''Failed to store memory in database: '' @ str_exn e)),
           self\<lparr>embedding_model := em\<rparr>)
      | None \<Rightarrow>
          (Inr \<lparr>mem_id = uuid, content = text, embedding = v,
                 metadata = (case md of None \<Rightarrow> Map.empty | Some m \<Rightarrow> m), timestamp = now\<rparr>,
           self\<lparr>embedding_model := em,
                collection := collection self @ [stored_row uuid v text md now]\<rparr>))"
  using assms
  by (simp add: add_memory_def collection_add_def stored_row_def split: option.splits)


lemma retrieve_clamped:
  assumes "retrieve_memory self q top_k = (Inr docs, cx)"
  shows "length docs = min (nat top_k) (length (collection self))"
  using retrieve_memory_Inr [OF assms]
  by (auto simp: length_nearest)

lemma retrieve_on_empty_collection:
  assumes "strip q \<noteq> []" and "top_k > 0"
    and "encode (embedding_model self) q = (Inr v, em)"
    and "collection self = []"
  shows "retrieve_memory self q top_k =
     (case query_error (client self) [] v 0 of
        None \<Rightarrow> Inr []
      | Some e \<Rightarrow> Inl (Exception (lit ''Failed to retrieve memories: '' @ str_exn e)),
      self\<lparr>embedding_model := em\<rparr>)"
  using assms
  by (simp add: retrieve_memory_def collection_query_def collection_count_def nearest_def
        split: option.splits)

lemma retrieve_after_first_add:
  assumes "collection cx = []"
    and "add_memory cx t md uuid now = (Inr m, cx1)"
    and "retrieve_memory cx1 t 3 = (Inr r, cx2)"
  shows "r = [t]"
proof -
  from add_memory_Inr [OF assms(2)] assms(1) obtain entry
    where entry: "row_document entry = t" "collection cx1 = [entry]"
    by auto
  from retrieve_memory_Inr [OF assms(3)] entry show ?thesis
    by (auto simp: nearest_def)
qed

lemma clear_memories_empty:
  "get_memory_count (clear_memories self) = 0 \<and> collection (clear_memories self) = [] \<and>
   client (clear_memories self) = client self \<and>
   embedding_model (clear_memories self) = embedding_model self"
  by (simp add: clear_memories_def get_memory_count_def collection_count_def)

lemma persistent_client_rejects_mismatch: "rejects_mismatch persistent_client"
  by (simp add: rejects_mismatch_def persistent_client_def)

section \<open>Facts about the Synaptic Loop\<close>

lemma deliberate_stdout [simp]: "deliberate (self\<lparr>stdout := out\<rparr>) = deliberate self"
  by (simp add: deliberate_def get_memory_count_def)

lemma deliberate_not_await: "beliefs self \<noteq> {} \<Longrightarrow> deliberate self \<noteq> await_input"
  by (simp add: deliberate_def await_input_def counted_intention_def uncounted_intention_def
        lit_def Let_def)

lemma run_cycle_fields:
  "current_intention (run_cycle self) = Some (deliberate self) \<and>
   beliefs (run_cycle self) = beliefs self \<and> codex (run_cycle self) = codex self"
  by (simp add: run_cycle_def display_cognitive_state_def Let_def)

lemma update_beliefs_codex:
  "codex (update_beliefs self t) = snd (retrieve_memory (codex self) t 3)"
  by (auto simp: update_beliefs_def Let_def split: prod.splits sum.splits)

lemma update_beliefs_beliefs:
  "beliefs (update_beliefs self t) =
     (case fst (retrieve_memory (codex self) t 3) of
        Inl e \<Rightarrow> insert (input_belief t) (beliefs self)
      | Inr r \<Rightarrow> if r \<noteq> [] then insert (context_belief r) (insert (input_belief t) (beliefs self))
                else insert (input_belief t) (beliefs self))"
  by (auto simp: update_beliefs_def Let_def split: prod.splits sum.splits)

lemma process_stored:
  assumes "add_memory (codex self) t (Some sensory_metadata) uuid now = (Inr m, cx)"
  shows "process_sensory_input self t uuid now =
     (Inr (), run_cycle (update_beliefs
        (self\<lparr>codex := cx,
              stdout := stdout self @
                [ProcessingInput (take 100 t @ (if length t > 100 then lit ''...'' else [])),
                 StoredMemory (take 8 (mem_id m))]\<rparr>) t))"
  using assms add_memory_Inr[OF assms]
  by (simp add: process_sensory_input_def Let_def)

lemma process_not_stored:
  assumes "strip t \<noteq> []" "add_memory (codex self) t (Some sensory_metadata) uuid now = (Inl e, cx)"
  shows "process_sensory_input self t uuid now =
     (Inr (), self\<lparr>codex := cx,
              stdout := stdout self @
                [ProcessingInput (take 100 t @ (if length t > 100 then lit ''...'' else [])),
                 FailedToStore (str_exn e)]\<rparr>)"
  using assms
  by (simp add: process_sensory_input_def Let_def)

lemma process_returns_normally: "fst (process_sensory_input self t uuid now) = Inr ()"
  by (simp add: process_sensory_input_def Let_def split: prod.splits sum.splits)

lemma process_stored_state:
  assumes "add_memory (codex self) t (Some sensory_metadata) uuid now = (Inr m, cx)"
  shows "codex (snd (process_sensory_input self t uuid now)) = snd (retrieve_memory cx t 3)"
    and "beliefs (snd (process_sensory_input self t uuid now)) =
      (case fst (retrieve_memory cx t 3) of
         Inl e \<Rightarrow> insert (input_belief t) (beliefs self)
       | Inr r \<Rightarrow> if r \<noteq> [] then insert (context_belief r) (insert (input_belief t) (beliefs self))
                 else insert (input_belief t) (beliefs self))"
    and "current_intention (snd (process_sensory_input self t uuid now)) =
      Some (counted_intention (get_memory_count (codex self) + 1))"
proof -
  let ?s2 = "self\<lparr>codex := cx,
              stdout := stdout self @
                [ProcessingInput (take 100 t @ (if length t > 100 then lit ''...'' else [])),
                 StoredMemory (take 8 (mem_id m))]\<rparr>"
  let ?s = "update_beliefs ?s2 t"
  have run: "snd (process_sensory_input self t uuid now) = run_cycle ?s"
    by (simp add: process_stored [OF assms])
  show "codex (snd (process_sensory_input self t uuid now)) = snd (retrieve_memory cx t 3)"
    by (simp add: run run_cycle_fields update_beliefs_codex)
  show "beliefs (snd (process_sensory_input self t uuid now)) =
      (case fst (retrieve_memory cx t 3) of
         Inl e \<Rightarrow> insert (input_belief t) (beliefs self)
       | Inr r \<Rightarrow> if r \<noteq> [] then insert (context_belief r) (insert (input_belief t) (beliefs self))
                 else insert (input_belief t) (beliefs self))"
    by (simp add: run run_cycle_fields update_beliefs_beliefs split: sum.splits)
  have "input_belief t \<in> beliefs ?s"
    by (simp add: update_beliefs_beliefs split: sum.splits)
  then have nonempty: "beliefs ?s \<noteq> {}" by blast
  have "get_memory_count (codex ?s) = get_memory_count (codex self) + 1"
    by (simp add: update_beliefs_codex retrieve_memory_count add_memory_count [OF assms])
  with nonempty have "deliberate ?s = counted_intention (get_memory_count (codex self) + 1)"
    by (simp add: deliberate_def counted_intention_def Let_def get_memory_count_def
          collection_count_def)
  then show "current_intention (snd (process_sensory_input self t uuid now)) =
      Some (counted_intention (get_memory_count (codex self) + 1))"
    by (simp add: run run_cycle_fields)
qed

lemma beliefs_differ: "input_belief t \<noteq> context_belief r"
  by (simp add: input_belief_def context_belief_def lit_def)

lemma counted_intention_1:
  "counted_intention 1 = lit ''Formulate a response based on recent input and 1 stored memories.''"
  by (simp add: counted_intention_def str_int_def str_nat.simps lit_def)

lemma context_belief_1:
  "context_belief [t] = lit ''I have 1 related memories about similar topics''"
  by (simp add: context_belief_def str_int_def str_nat.simps lit_def)

section \<open>The instances, evaluated\<close>


lemma nonblank_Hello: "strip (lit ''Hello'') \<noteq> []"
  by (simp add: strip_def lit_def isspace_def)

lemma nonblank_Hi: "strip (lit ''Hi'') \<noteq> []"
  by (simp add: strip_def lit_def isspace_def)

lemma hello_codex_reached:
  "add_memory empty_codex (lit ''hello'') None (lit ''id0'') 0 =
     (Inr \<lparr>mem_id = lit ''id0'', content = lit ''hello'', embedding = [5, 1],
            metadata = Map.empty, timestamp = 0\<rparr>, hello_codex)"
proof -
  have "strip (lit ''hello'') \<noteq> []" by (simp add: strip_def lit_def isspace_def)
  then show ?thesis
    by (simp add: add_memory_def empty_codex_def hello_codex_def hello_row_def encode_def
        pure_model_def length_embed_def collection_add_def persistent_client_def dimension_mismatch_def collection_dimension_def)
       (simp add: lit_def)
qed

lemma empty_add:
  "add_memory empty_codex (lit ''Hello'') (Some sensory_metadata) (lit ''id1'') 0 =
     (Inr \<lparr>mem_id = lit ''id1'', content = lit ''Hello'', embedding = [5, 1],
            metadata = sensory_metadata, timestamp = 0\<rparr>,
      empty_codex\<lparr>collection :=
         [\<lparr>row_id = lit ''id1'', row_embedding = [5, 1], row_document = lit ''Hello'',
           row_metadata = [lit ''timestamp'' \<mapsto> MFloat 0] ++ sensory_metadata\<rparr>]\<rparr>)"
  using nonblank_Hello
  by (simp add: add_memory_def empty_codex_def encode_def pure_model_def
        length_embed_def collection_add_def persistent_client_def dimension_mismatch_def collection_dimension_def lit_def)

lemma empty_add_retrieve:
  "retrieve_memory (empty_codex\<lparr>collection :=
         [\<lparr>row_id = lit ''id1'', row_embedding = [5, 1], row_document = lit ''Hello'',
           row_metadata = [lit ''timestamp'' \<mapsto> MFloat 0] ++ sensory_metadata\<rparr>]\<rparr>) (lit ''Hello'') 3 =
   (Inr [lit ''Hello''], empty_codex\<lparr>collection :=
         [\<lparr>row_id = lit ''id1'', row_embedding = [5, 1], row_document = lit ''Hello'',
           row_metadata = [lit ''timestamp'' \<mapsto> MFloat 0] ++ sensory_metadata\<rparr>]\<rparr>)"
  using nonblank_Hello
  by (simp add: retrieve_memory_def empty_codex_def encode_def pure_model_def
        length_embed_def collection_query_def collection_count_def nearest_def
        persistent_client_def dimension_mismatch_def collection_dimension_def lit_def)

lemma hello_add_Hello:
  "add_memory hello_codex (lit ''Hello'') None (lit ''id1'') 1 =
     (Inr \<lparr>mem_id = lit ''id1'', content = lit ''Hello'', embedding = [5, 1],
            metadata = Map.empty, timestamp = 1\<rparr>,
      hello_codex\<lparr>collection := [hello_row,
         \<lparr>row_id = lit ''id1'', row_embedding = [5, 1], row_document = lit ''Hello'',
           row_metadata = [lit ''timestamp'' \<mapsto> MFloat 1] ++ Map.empty\<rparr>]\<rparr>)"
  using nonblank_Hello
  by (simp add: add_memory_def hello_codex_def hello_row_def encode_def
        pure_model_def length_embed_def collection_add_def persistent_client_def dimension_mismatch_def collection_dimension_def)
     (simp add: lit_def)

lemma hello_add_Hi:
  "add_memory hello_codex (lit ''Hi'') None (lit ''id1'') 1 =
     (Inr \<lparr>mem_id = lit ''id1'', content = lit ''Hi'', embedding = [2, 1],
            metadata = Map.empty, timestamp = 1\<rparr>,
      hello_codex\<lparr>collection := [hello_row,
         \<lparr>row_id = lit ''id1'', row_embedding = [2, 1], row_document = lit ''Hi'',
           row_metadata = [lit ''timestamp'' \<mapsto> MFloat 1] ++ Map.empty\<rparr>]\<rparr>)"
  using nonblank_Hi
  by (simp add: add_memory_def hello_codex_def hello_row_def encode_def
        pure_model_def length_embed_def collection_add_def persistent_client_def dimension_mismatch_def collection_dimension_def)
     (simp add: lit_def)

lemma failing_add:
  "add_memory failing_codex (lit ''Hello'') (Some sensory_metadata) (lit ''id1'') 0 =
     (Inl (Exception (lit ''Failed to generate embedding: model unavailable'')), failing_codex)"
  using nonblank_Hello
  by (simp add: add_memory_def failing_codex_def encode_def pure_model_def failing_embed_def
        lit_def)

lemma flaky_add:
  "add_memory flaky_codex (lit ''Hello'') (Some sensory_metadata) (lit ''id1'') 0 =
     (Inr \<lparr>mem_id = lit ''id1'', content = lit ''Hello'', embedding = [5, 1],
            metadata = sensory_metadata, timestamp = 0\<rparr>,
      flaky_codex\<lparr>embedding_model := (once_model length_embed)\<lparr>model_state := 1\<rparr>,
        collection := [\<lparr>row_id = lit ''id1'', row_embedding = [5, 1], row_document = lit ''Hello'',
           row_metadata = [lit ''timestamp'' \<mapsto> MFloat 0] ++ sensory_metadata\<rparr>]\<rparr>)"
  using nonblank_Hello
  by (simp add: add_memory_def flaky_codex_def encode_def once_model_def
        length_embed_def collection_add_def persistent_client_def dimension_mismatch_def collection_dimension_def lit_def)

section \<open>The claims\<close>

subsection \<open>Round trip of add and retrieve\<close>

text \<open>
  \<^bold>\<open>C1\<close> (as amended). An \<open>add_memory\<close> that succeeds raises the count by exactly one. When
  the provider then maps the same content to the same vector and the index answers the
  query, \<open>retrieve_memory\<close> of that content with \<open>top_k = 1\<close> returns exactly one element,
  and it is the content itself provided every record stored before that is at least as
  near to the query as the new record holds the same content (a different, earlier
  record at the same distance would win the tie).
\<close>

theorem add_then_retrieve:
  assumes "strip text \<noteq> []"
    and "add_memory self text md uuid now = (Inr m, cx)"
  shows "get_memory_count cx = get_memory_count self + 1 \<and>
     (fst (encode (embedding_model cx) text) = Inr (embedding m) \<and>
      query_error (client cx) (collection cx) (embedding m) 1 = None \<and>
      (\<forall>r \<in> set (collection self).
          distance (client cx) (embedding m) (row_embedding r) \<le>
            distance (client cx) (embedding m) (embedding m) \<longrightarrow>
          row_document r = text) \<longrightarrow>
      fst (retrieve_memory cx text 1) = Inr [text])"
proof -
  from add_memory_Inr [OF assms(2)] obtain entry where
    entry: "row_document entry = text" "row_embedding entry = embedding m"
      "collection cx = collection self @ [entry]"
    by auto
  have count: "get_memory_count cx = get_memory_count self + 1"
    by (rule add_memory_count [OF assms(2)])
  have "fst (retrieve_memory cx text 1) = Inr [text]"
    if det: "fst (encode (embedding_model cx) text) = Inr (embedding m)"
      and ok: "query_error (client cx) (collection cx) (embedding m) 1 = None"
      and near: "\<forall>r \<in> set (collection self).
          distance (client cx) (embedding m) (row_embedding r) \<le>
            distance (client cx) (embedding m) (embedding m) \<longrightarrow>
          row_document r = text"
  proof -
    obtain em where enc: "encode (embedding_model cx) text = (Inr (embedding m), em)"
      using det by (cases "encode (embedding_model cx) text") auto
    have one: "min 1 (int (length (collection cx))) = 1"
      using entry(3) by simp
    have nonempty: "collection cx \<noteq> []" using entry(3) by simp
    from nearest_one [OF nonempty, of "client cx" "embedding m"] obtain r where
      r: "nearest (client cx) (collection cx) (embedding m) 1 = [r]" "r \<in> set (collection cx)"
        "\<forall>r' \<in> set (collection cx).
            distance (client cx) (embedding m) (row_embedding r) \<le>
              distance (client cx) (embedding m) (row_embedding r')"
      by blast
    have "entry \<in> set (collection cx)" using entry(3) by simp
    with r(3) have
      "distance (client cx) (embedding m) (row_embedding r) \<le>
         distance (client cx) (embedding m) (embedding m)"
      using entry(2) by fastforce
    moreover from r(2) entry(3) have "r = entry \<or> r \<in> set (collection self)" by auto
    ultimately have "row_document r = text"
      using near entry(1) by blast
    with retrieve_memory_ok [OF assms(1) _ enc] ok one r(1) show ?thesis
      by simp
  qed
  with count show ?thesis by blast
qed

theorem add_then_retrieve_witness:
  "strip (lit ''Hi'') \<noteq> [] \<and>
   fst (add_memory hello_codex (lit ''Hi'') None (lit ''id1'') 1) =
     Inr \<lparr>mem_id = lit ''id1'', content = lit ''Hi'', embedding = [2, 1],
            metadata = Map.empty, timestamp = 1\<rparr> \<and>
   get_memory_count hello_codex = 1 \<and>
   get_memory_count (snd (add_memory hello_codex (lit ''Hi'') None (lit ''id1'') 1)) = 2 \<and>
   l2 [2, 1] [5, 1] = 9 \<and> l2 [2, 1] [2, 1] = 0 \<and>
   fst (retrieve_memory (snd (add_memory hello_codex (lit ''Hi'') None (lit ''id1'') 1))
         (lit ''Hi'') 1) = Inr [lit ''Hi'']"
proof -
  let ?cx = "hello_codex\<lparr>collection := [hello_row,
         \<lparr>row_id = lit ''id1'', row_embedding = [2, 1], row_document = lit ''Hi'',
           row_metadata = [lit ''timestamp'' \<mapsto> MFloat 1] ++ Map.empty\<rparr>]\<rparr>"
  have det: "fst (encode (embedding_model ?cx) (lit ''Hi'')) = Inr [2, 1]"
    by (simp add: hello_codex_def encode_def pure_model_def length_embed_def lit_def)
  have ok: "query_error (client ?cx) (collection ?cx) [2, 1] 1 = None"
    by (simp add: hello_codex_def persistent_client_def dimension_mismatch_def collection_dimension_def hello_row_def)
  have far: "l2 [2, 1] [5, 1] = 9" and self_dist: "l2 [2, 1] [2, 1] = 0"
    by (simp_all add: l2_def)
  have near: "\<forall>r \<in> set (collection hello_codex).
          distance (client ?cx) [2, 1] (row_embedding r) \<le> distance (client ?cx) [2, 1] [2, 1] \<longrightarrow>
          row_document r = lit ''Hi''"
    by (simp add: hello_codex_def hello_row_def persistent_client_def far self_dist)
  have count: "get_memory_count hello_codex = 1"
    by (simp add: get_memory_count_def collection_count_def hello_codex_def)
  from add_then_retrieve [OF nonblank_Hi hello_add_Hi] det ok near count far self_dist nonblank_Hi
  show ?thesis by (simp add: hello_add_Hi)
qed

text \<open>
  The claim \<^bold>\<open>C1\<close> as it is written fails. The repository holds \<open>hello\<close>; the provider
  maps \<open>Hello\<close> to the same vector. After \<open>add_memory\<close> of \<open>Hello\<close>, both records are at
  distance 0 from the query \<open>Hello\<close>, the earlier one wins the tie, and
  \<open>retrieve_memory\<close> with \<open>top_k = 1\<close> returns \<open>hello\<close>.
\<close>

theorem round_trip_counterexample:
  "fst (add_memory hello_codex (lit ''Hello'') None (lit ''id1'') 1) =
     Inr \<lparr>mem_id = lit ''id1'', content = lit ''Hello'', embedding = [5, 1],
            metadata = Map.empty, timestamp = 1\<rparr> \<and>
   fst (retrieve_memory (snd (add_memory hello_codex (lit ''Hello'') None (lit ''id1'') 1))
         (lit ''Hello'') 1) = Inr [lit ''hello''] \<and>
   lit ''hello'' \<noteq> lit ''Hello''"
proof -
  have "fst (retrieve_memory (hello_codex\<lparr>collection := [hello_row,
         \<lparr>row_id = lit ''id1'', row_embedding = [5, 1], row_document = lit ''Hello'',
           row_metadata = [lit ''timestamp'' \<mapsto> MFloat 1] ++ Map.empty\<rparr>]\<rparr>)
         (lit ''Hello'') 1) = Inr [lit ''hello'']"
    using nonblank_Hello
    by (simp add: retrieve_memory_def hello_codex_def hello_row_def encode_def pure_model_def
          length_embed_def collection_query_def collection_count_def nearest_def
          persistent_client_def dimension_mismatch_def collection_dimension_def l2_def)
  moreover have "lit ''hello'' \<noteq> lit ''Hello''" by (simp add: lit_def)
  ultimately show ?thesis by (simp add: hello_add_Hello)
qed

subsection \<open>The first input of a fresh loop\<close>

text \<open>
  \<^bold>\<open>C2\<close> (as amended). A freshly constructed loop has no belief and no intention. After one
  \<open>process_sensory_input\<close> of a non-empty text that is stored in the empty repository, the
  intention is the statement that names one stored memory; the context lookup, when it
  succeeds, finds the memory that was just stored, so the belief set holds two entries
  (the input-received belief and the belief of one related memory), and it holds the
  input-received belief only when the lookup fails.
\<close>

theorem first_input_on_empty_repository:
  assumes "collection cx = []"
    and "strip t \<noteq> []"
    and "add_memory cx t (Some sensory_metadata) uuid now = (Inr m, cx1)"
  shows "get_beliefs (init cx) = {} \<and> get_current_intention (init cx) = None \<and>
     get_current_intention (snd (process_sensory_input (init cx) t uuid now)) =
       Some (lit ''Formulate a response based on recent input and 1 stored memories.'') \<and>
     (case fst (retrieve_memory cx1 t 3) of
        Inl e \<Rightarrow>
          get_beliefs (snd (process_sensory_input (init cx) t uuid now)) = {input_belief t}
      | Inr r \<Rightarrow>
          r = [t] \<and>
          get_beliefs (snd (process_sensory_input (init cx) t uuid now)) =
            {input_belief t, lit ''I have 1 related memories about similar topics''} \<and>
          card (get_beliefs (snd (process_sensory_input (init cx) t uuid now))) = 2)"
proof -
  have stored: "add_memory (codex (init cx)) t (Some sensory_metadata) uuid now = (Inr m, cx1)"
    using assms(3) by (simp add: init_def)
  note st = process_stored_state [OF stored]
  have fresh: "get_beliefs (init cx) = {} \<and> get_current_intention (init cx) = None"
    by (simp add: init_def get_beliefs_def get_current_intention_def)
  have "get_memory_count (codex (init cx)) = 0"
    using assms(1) by (simp add: init_def get_memory_count_def collection_count_def)
  with st(3) have intent:
    "get_current_intention (snd (process_sensory_input (init cx) t uuid now)) =
       Some (lit ''Formulate a response based on recent input and 1 stored memories.'')"
    by (simp add: get_current_intention_def counted_intention_1)
  have bel: "case fst (retrieve_memory cx1 t 3) of
        Inl e \<Rightarrow>
          get_beliefs (snd (process_sensory_input (init cx) t uuid now)) = {input_belief t}
      | Inr r \<Rightarrow>
          r = [t] \<and>
          get_beliefs (snd (process_sensory_input (init cx) t uuid now)) =
            {input_belief t, lit ''I have 1 related memories about similar topics''} \<and>
          card (get_beliefs (snd (process_sensory_input (init cx) t uuid now))) = 2"
  proof (cases "fst (retrieve_memory cx1 t 3)")
    case (Inl e)
    with st(2) show ?thesis by (simp add: get_beliefs_def init_def)
  next
    case (Inr r)
    then have "retrieve_memory cx1 t 3 = (Inr r, snd (retrieve_memory cx1 t 3))"
      by (metis prod.collapse)
    from retrieve_after_first_add [OF assms(1) assms(3) this] have r: "r = [t]" .
    have "input_belief t \<noteq> lit ''I have 1 related memories about similar topics''"
      using beliefs_differ [of t "[t]"] by (simp add: context_belief_1)
    with st(2) Inr r show ?thesis
      by (simp add: get_beliefs_def init_def context_belief_1 insert_commute)
  qed
  from fresh intent bel show ?thesis by simp
qed

theorem first_input_on_empty_repository_witness:
  "collection empty_codex = [] \<and> strip (lit ''Hello'') \<noteq> [] \<and>
   fst (add_memory empty_codex (lit ''Hello'') (Some sensory_metadata) (lit ''id1'') 0) =
     Inr \<lparr>mem_id = lit ''id1'', content = lit ''Hello'', embedding = [5, 1],
            metadata = sensory_metadata, timestamp = 0\<rparr> \<and>
   get_current_intention (snd (process_sensory_input (init empty_codex) (lit ''Hello'') (lit ''id1'') 0)) =
     Some (lit ''Formulate a response based on recent input and 1 stored memories.'') \<and>
   get_beliefs (snd (process_sensory_input (init empty_codex) (lit ''Hello'') (lit ''id1'') 0)) =
     {lit ''The user recently said: Hello'', lit ''I have 1 related memories about similar topics''}"
proof -
  have empty: "collection empty_codex = []" by (simp add: empty_codex_def)
  have "get_current_intention (snd (process_sensory_input (init empty_codex) (lit ''Hello'') (lit ''id1'') 0)) =
     Some (lit ''Formulate a response based on recent input and 1 stored memories.'') \<and>
   get_beliefs (snd (process_sensory_input (init empty_codex) (lit ''Hello'') (lit ''id1'') 0)) =
     {input_belief (lit ''Hello''), lit ''I have 1 related memories about similar topics''}"
    using first_input_on_empty_repository [OF empty nonblank_Hello empty_add]
    by (simp add: empty_add_retrieve)
  then show ?thesis
    using empty nonblank_Hello by (simp add: empty_add input_belief_def) (simp add: lit_def)
qed

text \<open>
  The claim \<^bold>\<open>C2\<close> as it is written fails: on a fresh loop over an empty repository, one
  \<open>process_sensory_input\<close> of \<open>Hello\<close> leaves two beliefs, and the intention names a count
  of one stored memory.
\<close>

theorem first_input_counterexample:
  "card (get_beliefs (snd (process_sensory_input (init empty_codex) (lit ''Hello'') (lit ''id1'') 0))) = 2 \<and>
   get_current_intention (snd (process_sensory_input (init empty_codex) (lit ''Hello'') (lit ''id1'') 0)) =
     Some (lit ''Formulate a response based on recent input and 1 stored memories.'') \<and>
   lit ''Formulate a response based on recent input and 1 stored memories.'' \<noteq> uncounted_intention"
proof -
  have stored: "add_memory (codex (init empty_codex)) (lit ''Hello'') (Some sensory_metadata) (lit ''id1'') 0 =
     (Inr \<lparr>mem_id = lit ''id1'', content = lit ''Hello'', embedding = [5, 1],
            metadata = sensory_metadata, timestamp = 0\<rparr>,
      empty_codex\<lparr>collection :=
         [\<lparr>row_id = lit ''id1'', row_embedding = [5, 1], row_document = lit ''Hello'',
           row_metadata = [lit ''timestamp'' \<mapsto> MFloat 0] ++ sensory_metadata\<rparr>]\<rparr>)"
    by (simp add: init_def empty_add)
  note st = process_stored_state [OF stored]
  have b: "beliefs (snd (process_sensory_input (init empty_codex) (lit ''Hello'') (lit ''id1'') 0)) =
      {context_belief [lit ''Hello''], input_belief (lit ''Hello'')}"
    using st(2) by (simp add: empty_add_retrieve init_def)
  have c: "card {context_belief [lit ''Hello''], input_belief (lit ''Hello'')} = 2"
    using beliefs_differ [of "lit ''Hello''" "[lit ''Hello'']"] by auto
  have i: "current_intention (snd (process_sensory_input (init empty_codex) (lit ''Hello'') (lit ''id1'') 0)) =
      Some (counted_intention 1)"
    using st(3) by (simp add: init_def get_memory_count_def collection_count_def empty_codex_def)
  have one: "counted_intention 1 = lit ''Formulate a response based on recent input and 1 stored memories.''"
    by (simp add: counted_intention_def str_int_def str_nat.simps lit_def)
  have diff: "lit ''Formulate a response based on recent input and 1 stored memories.'' \<noteq> uncounted_intention"
    by (simp add: uncounted_intention_def lit_def)
  from b c i one diff show ?thesis
    by (simp add: get_beliefs_def get_current_intention_def)
qed

subsection \<open>Embeddings of a foreign dimensionality\<close>




text \<open>
  Over an index that does refuse (\<open>rejects_mismatch\<close>), as the ChromaDB client does
  (\<open>persistent_client_rejects_mismatch\<close>), both calls fail and nothing is stored.
\<close>

lemma refusing_index_fails:
  assumes "rejects_mismatch (client self)"
    and "fst (encode (embedding_model self) text) = Inr v"
    and "dimension_mismatch (collection self) v"
  shows "(\<exists>e. fst (add_memory self text md uuid now) = Inl e \<and>
              (storage_failure e \<or> invalid_input e)) \<and>
         collection (snd (add_memory self text md uuid now)) = collection self \<and>
         (\<exists>e. fst (retrieve_memory self text top_k) = Inl e \<and>
              (storage_failure e \<or> invalid_input e)) \<and>
         collection (snd (retrieve_memory self text top_k)) = collection self"
proof -
  obtain em where enc: "encode (embedding_model self) text = (Inr v, em)"
    using assms(2) by (cases "encode (embedding_model self) text") auto
  from assms(1,3) have
    add_rej: "\<And>r. row_embedding r = v \<Longrightarrow> add_error (client self) (collection self) r \<noteq> None"
    and query_rej: "\<And>n. query_error (client self) (collection self) v n \<noteq> None"
    by (auto simp: rejects_mismatch_def)
  have "\<exists>e. fst (add_memory self text md uuid now) = Inl e \<and> (storage_failure e \<or> invalid_input e)"
  proof (cases "strip text = []")
    case True
    then show ?thesis by (simp add: add_memory_empty)
  next
    case False
    from add_rej [of "stored_row uuid v text md now"] obtain e
      where "add_error (client self) (collection self) (stored_row uuid v text md now) = Some e"
      by (auto simp: stored_row_def)
    with False enc show ?thesis
      by (simp add: add_memory_reaches_index)
  qed
  moreover have "collection (snd (add_memory self text md uuid now)) = collection self"
    using calculation add_memory_Inl [of self "text" md uuid now]
    by (metis prod.collapse)
  moreover have "\<exists>e. fst (retrieve_memory self text top_k) = Inl e \<and>
      (storage_failure e \<or> invalid_input e)"
  proof (cases "strip text = [] \<or> top_k \<le> 0")
    case True
    then show ?thesis by (auto simp: retrieve_memory_def)
  next
    case False
    from query_rej [of "min top_k (int (length (collection self)))"] obtain e
      where "query_error (client self) (collection self) v
               (min top_k (int (length (collection self)))) = Some e"
      by auto
    with False enc show ?thesis
      by (simp add: retrieve_memory_query_error)
  qed
  ultimately show ?thesis by (simp add: retrieve_memory_frame)
qed

subsection \<open>A failing add inside the cycle\<close>

text \<open>
  \<^bold>\<open>C4\<close> (as amended). When the \<open>add_memory\<close> call inside \<open>process_sensory_input\<close> fails for a
  non-empty input, the cycle is aborted: the method prints the failure with the text of
  the error and returns normally, no exception reaches the caller; the belief set, the
  intention, the memory count and the stored records are what they were before the call.
\<close>

theorem add_failure_aborts_cycle:
  assumes "strip t \<noteq> []"
    and "add_memory (codex self) t (Some sensory_metadata) uuid now = (Inl e, cx)"
  shows "fst (process_sensory_input self t uuid now) = Inr () \<and>
     stdout (snd (process_sensory_input self t uuid now)) =
       stdout self @
         [ProcessingInput (take 100 t @ (if length t > 100 then lit ''...'' else [])),
          FailedToStore (str_exn e)] \<and>
     get_beliefs (snd (process_sensory_input self t uuid now)) = get_beliefs self \<and>
     get_current_intention (snd (process_sensory_input self t uuid now)) =
       get_current_intention self \<and>
     get_memory_count (codex (snd (process_sensory_input self t uuid now))) =
       get_memory_count (codex self) \<and>
     collection (codex (snd (process_sensory_input self t uuid now))) = collection (codex self)"
  using add_memory_Inl [OF assms(2)]
  by (simp add: process_not_stored [OF assms] get_beliefs_def get_current_intention_def
        get_memory_count_def)

theorem add_failure_aborts_cycle_witness:
  "strip (lit ''Hello'') \<noteq> [] \<and>
   add_memory (codex (init failing_codex)) (lit ''Hello'') (Some sensory_metadata) (lit ''id1'') 0 =
     (Inl (Exception (lit ''Failed to generate embedding: model unavailable'')), failing_codex) \<and>
   fst (process_sensory_input (init failing_codex) (lit ''Hello'') (lit ''id1'') 0) = Inr () \<and>
   stdout (snd (process_sensory_input (init failing_codex) (lit ''Hello'') (lit ''id1'') 0)) =
     [ProcessingInput (lit ''Hello''),
      FailedToStore (lit ''Failed to generate embedding: model unavailable'')] \<and>
   get_beliefs (snd (process_sensory_input (init failing_codex) (lit ''Hello'') (lit ''id1'') 0)) = {} \<and>
   get_current_intention
     (snd (process_sensory_input (init failing_codex) (lit ''Hello'') (lit ''id1'') 0)) = None \<and>
   get_memory_count
     (codex (snd (process_sensory_input (init failing_codex) (lit ''Hello'') (lit ''id1'') 0))) = 0"
proof -
  have failed: "add_memory (codex (init failing_codex)) (lit ''Hello'') (Some sensory_metadata)
      (lit ''id1'') 0 =
     (Inl (Exception (lit ''Failed to generate embedding: model unavailable'')), failing_codex)"
    by (simp add: init_def failing_add)
  have short: "length (lit ''Hello'') = 5" by (simp add: lit_def)
  have fresh: "get_beliefs (init failing_codex) = {} \<and>
      get_current_intention (init failing_codex) = None \<and>
      get_memory_count (codex (init failing_codex)) = 0 \<and> stdout (init failing_codex) = []"
    by (simp add: init_def get_beliefs_def get_current_intention_def get_memory_count_def
          collection_count_def failing_codex_def)
  from add_failure_aborts_cycle [OF nonblank_Hello failed] nonblank_Hello failed short fresh
  show ?thesis by simp
qed

text \<open>
  The claim as it is written fails: the failure of \<open>add_memory\<close> is caught inside
  \<open>process_sensory_input\<close>, which returns normally.
\<close>

theorem add_failure_not_raised:
  "fst (add_memory (codex (init failing_codex)) (lit ''Hello'') (Some sensory_metadata) (lit ''id1'') 0) =
     Inl (Exception (lit ''Failed to generate embedding: model unavailable'')) \<and>
   fst (process_sensory_input (init failing_codex) (lit ''Hello'') (lit ''id1'') 0) = Inr ()"
proof -
  have failed: "add_memory (codex (init failing_codex)) (lit ''Hello'') (Some sensory_metadata)
      (lit ''id1'') 0 =
     (Inl (Exception (lit ''Failed to generate embedding: model unavailable'')), failing_codex)"
    by (simp add: init_def failing_add)
  then show ?thesis
    by (simp add: process_not_stored [OF nonblank_Hello failed])
qed

subsection \<open>A failing retrieval inside the cycle\<close>

text \<open>
  \<^bold>\<open>C5\<close>. When, for a non-empty input, the \<open>add_memory\<close> inside \<open>process_sensory_input\<close>
  succeeds and the \<open>retrieve_memory\<close> (with \<open>top_k = 3\<close>) that follows fails, the memory is
  stored all the same (the count grows by one), the input-received belief is added and
  nothing else is, and the intention is overwritten with the statement for the new count,
  as on the path where retrieval succeeds (\<open>process_stored_state\<close>).
\<close>

theorem retrieval_failure_isolated:
  assumes "strip t \<noteq> []"
    and "add_memory (codex self) t (Some sensory_metadata) uuid now = (Inr m, cx)"
    and "fst (retrieve_memory cx t 3) = Inl e"
  shows "get_memory_count (codex (snd (process_sensory_input self t uuid now))) =
           get_memory_count (codex self) + 1 \<and>
         get_beliefs (snd (process_sensory_input self t uuid now)) =
           insert (input_belief t) (get_beliefs self) \<and>
         get_current_intention (snd (process_sensory_input self t uuid now)) =
           Some (counted_intention (get_memory_count (codex self) + 1))"
  using process_stored_state [OF assms(2)] assms(3) add_memory_count [OF assms(2)]
  by (simp add: get_beliefs_def get_current_intention_def retrieve_memory_count)

theorem retrieval_failure_isolated_witness:
  "strip (lit ''Hello'') \<noteq> [] \<and>
   fst (add_memory (codex (init flaky_codex)) (lit ''Hello'') (Some sensory_metadata) (lit ''id1'') 0) =
     Inr \<lparr>mem_id = lit ''id1'', content = lit ''Hello'', embedding = [5, 1],
            metadata = sensory_metadata, timestamp = 0\<rparr> \<and>
   fst (retrieve_memory
     (snd (add_memory (codex (init flaky_codex)) (lit ''Hello'') (Some sensory_metadata) (lit ''id1'') 0))
     (lit ''Hello'') 3) =
     Inl (Exception (lit ''Failed to generate query embedding: model unavailable'')) \<and>
   get_memory_count (codex (snd (process_sensory_input (init flaky_codex) (lit ''Hello'') (lit ''id1'') 0))) = 1 \<and>
   get_beliefs (snd (process_sensory_input (init flaky_codex) (lit ''Hello'') (lit ''id1'') 0)) =
     {lit ''The user recently said: Hello''} \<and>
   get_current_intention (snd (process_sensory_input (init flaky_codex) (lit ''Hello'') (lit ''id1'') 0)) =
     Some (lit ''Formulate a response based on recent input and 1 stored memories.'')"
proof -
  have stored: "add_memory (codex (init flaky_codex)) (lit ''Hello'') (Some sensory_metadata) (lit ''id1'') 0 =
     (Inr \<lparr>mem_id = lit ''id1'', content = lit ''Hello'', embedding = [5, 1],
            metadata = sensory_metadata, timestamp = 0\<rparr>,
      flaky_codex\<lparr>embedding_model := (once_model length_embed)\<lparr>model_state := 1\<rparr>,
        collection := [\<lparr>row_id = lit ''id1'', row_embedding = [5, 1], row_document = lit ''Hello'',
           row_metadata = [lit ''timestamp'' \<mapsto> MFloat 0] ++ sensory_metadata\<rparr>]\<rparr>)"
    by (simp add: init_def flaky_add)
  have failed: "fst (retrieve_memory
      (flaky_codex\<lparr>embedding_model := (once_model length_embed)\<lparr>model_state := 1\<rparr>,
        collection := [\<lparr>row_id = lit ''id1'', row_embedding = [5, 1], row_document = lit ''Hello'',
           row_metadata = [lit ''timestamp'' \<mapsto> MFloat 0] ++ sensory_metadata\<rparr>]\<rparr>)
      (lit ''Hello'') 3) =
     Inl (Exception (lit ''Failed to generate query embedding: model unavailable''))"
    using nonblank_Hello
    by (simp add: retrieve_memory_def encode_def once_model_def flaky_codex_def lit_def)
  from retrieval_failure_isolated [OF nonblank_Hello stored failed] stored failed nonblank_Hello
  show ?thesis
    by (simp add: init_def get_beliefs_def get_memory_count_def collection_count_def
          flaky_codex_def counted_intention_def input_belief_def str_int_def str_nat.simps lit_def)
qed

subsection \<open>Empty input\<close>

text \<open>
  \<^bold>\<open>C6\<close>. For a string that is empty once whitespace is trimmed, \<open>add_memory\<close> and
  \<open>retrieve_memory\<close> (with any \<open>top_k\<close>) both raise \<open>ValueError\<close>, the invalid-input error,
  and the \<open>Codex\<close> is exactly what it was: the count is unchanged and no record is stored
  or removed.
\<close>

theorem empty_input_rejected:
  assumes "strip s = []"
  shows "add_memory self s md uuid now =
           (Inl (ValueError (lit ''Memory content cannot be empty'')), self) \<and>
         retrieve_memory self s top_k =
           (Inl (ValueError (lit ''Query cannot be empty'')), self) \<and>
         get_memory_count (snd (add_memory self s md uuid now)) = get_memory_count self \<and>
         get_memory_count (snd (retrieve_memory self s top_k)) = get_memory_count self \<and>
         collection (snd (add_memory self s md uuid now)) = collection self \<and>
         collection (snd (retrieve_memory self s top_k)) = collection self"
  using assms by (simp add: add_memory_empty retrieve_memory_empty)

theorem empty_input_rejected_witness:
  "strip (lit ''   '') = [] \<and>
   add_memory empty_codex (lit ''   '') None (lit ''id1'') 0 =
     (Inl (ValueError (lit ''Memory content cannot be empty'')), empty_codex) \<and>
   retrieve_memory empty_codex (lit ''   '') 5 =
     (Inl (ValueError (lit ''Query cannot be empty'')), empty_codex)"
proof -
  have blank: "strip (lit ''   '') = []"
    by (simp add: strip_def lit_def isspace_def)
  from empty_input_rejected [OF blank, of empty_codex None "lit ''id1''" 0 5] blank
  show ?thesis by simp
qed

subsection \<open>The bounds of top\_k\<close>

text \<open>
  \<^bold>\<open>C7\<close>, at the input where the code leaves the claim. On a repository with no record,
  \<open>retrieve_memory\<close> of a non-empty query with \<open>top_k = 5\<close> asks the index for
  \<open>min 5 0 = 0\<close> results; ChromaDB refuses that number, the method wraps the refusal, and
  the call raises instead of returning the empty list. (A \<open>top_k\<close> that is not positive
  raises \<open>ValueError\<close>, \<open>top_k_not_positive\<close>, and a result never has more elements than
  \<open>top_k\<close> or than the count, \<open>retrieve_clamped\<close>.)
\<close>

theorem retrieve_on_empty_repository:
  "get_memory_count empty_codex = 0 \<and>
   retrieve_memory empty_codex (lit ''Hello'') 5 =
     (Inl (Exception (lit ''Failed to retrieve memories: Number of requested results 0, cannot be negative, or zero.'')),
      empty_codex)"
proof -
  have "get_memory_count empty_codex = 0"
    by (simp add: get_memory_count_def collection_count_def empty_codex_def)
  moreover have "encode (embedding_model empty_codex) (lit ''Hello'') =
      (Inr [5, 1], embedding_model empty_codex)"
    by (simp add: empty_codex_def encode_def pure_model_def length_embed_def lit_def)
  from retrieve_on_empty_collection [OF nonblank_Hello _ this, of 5]
  have "retrieve_memory empty_codex (lit ''Hello'') 5 =
     (Inl (Exception (lit ''Failed to retrieve memories: Number of requested results 0, cannot be negative, or zero.'')),
      empty_codex)"
    by (simp add: empty_codex_def persistent_client_def str_int_def str_nat.simps lit_def)
  ultimately show ?thesis by simp
qed

subsection \<open>Clearing the repository\<close>

text \<open>
  \<^bold>\<open>C8\<close>, at the input where the code leaves the claim. After \<open>clear_memories\<close> on a
  repository that held one record, the count is 0 and no record is left
  (\<open>clear_memories_empty\<close>), but \<open>retrieve_memory\<close> of a non-empty query asks the index
  for \<open>min 1 0 = 0\<close> results, which ChromaDB refuses, and the call raises instead of
  returning the empty list.
\<close>

theorem retrieve_after_clear:
  "get_memory_count hello_codex = 1 \<and>
   get_memory_count (clear_memories hello_codex) = 0 \<and>
   collection (clear_memories hello_codex) = [] \<and>
   retrieve_memory (clear_memories hello_codex) (lit ''hello'') 1 =
     (Inl (Exception (lit ''Failed to retrieve memories: Number of requested results 0, cannot be negative, or zero.'')),
      clear_memories hello_codex)"
proof -
  have nonblank: "strip (lit ''hello'') \<noteq> []"
    by (simp add: strip_def lit_def isspace_def)
  have count: "get_memory_count hello_codex = 1"
    by (simp add: get_memory_count_def collection_count_def hello_codex_def)
  have enc: "encode (embedding_model (clear_memories hello_codex)) (lit ''hello'') =
      (Inr [5, 1], embedding_model (clear_memories hello_codex))"
    by (simp add: clear_memories_def hello_codex_def encode_def pure_model_def length_embed_def
          lit_def)
  from retrieve_on_empty_collection [OF nonblank _ enc, of 1]
  have "retrieve_memory (clear_memories hello_codex) (lit ''hello'') 1 =
     (Inl (Exception (lit ''Failed to retrieve memories: Number of requested results 0, cannot be negative, or zero.'')),
      clear_memories hello_codex)"
    by (simp add: clear_memories_def hello_codex_def persistent_client_def str_int_def
          str_nat.simps lit_def)
  with count show ?thesis by (simp add: clear_memories_empty)
qed

subsection \<open>Clearing the beliefs\<close>

text \<open>
  \<^bold>\<open>C9\<close>. \<open>clear_beliefs\<close> empties the belief set; the intention is the one before the
  call, and the \<open>Codex\<close>, with its count and its stored records, is untouched.
\<close>

theorem clear_beliefs_frame:
  "get_beliefs (clear_beliefs self) = {} \<and>
   get_current_intention (clear_beliefs self) = get_current_intention self \<and>
   codex (clear_beliefs self) = codex self \<and>
   get_memory_count (codex (clear_beliefs self)) = get_memory_count (codex self) \<and>
   collection (codex (clear_beliefs self)) = collection (codex self)"
  by (simp add: clear_beliefs_def get_beliefs_def get_current_intention_def)

subsection \<open>The intention after a stored input\<close>

text \<open>
  \<^bold>\<open>C10\<close>. After a \<open>process_sensory_input\<close> whose non-empty input was stored, the
  input-received belief is in the belief set, the intention is set, and it is not the
  await-input statement: deliberation runs only after that belief was added.
\<close>

theorem stored_input_sets_intention:
  assumes "strip t \<noteq> []"
    and "add_memory (codex self) t (Some sensory_metadata) uuid now = (Inr m, cx)"
  shows "input_belief t \<in> get_beliefs (snd (process_sensory_input self t uuid now)) \<and>
         get_current_intention (snd (process_sensory_input self t uuid now)) \<noteq> None \<and>
         get_current_intention (snd (process_sensory_input self t uuid now)) \<noteq> Some await_input"
proof -
  let ?s = "update_beliefs
        (self\<lparr>codex := cx,
              stdout := stdout self @
                [ProcessingInput (take 100 t @ (if length t > 100 then lit ''...'' else [])),
                 StoredMemory (take 8 (mem_id m))]\<rparr>) t"
  have run: "snd (process_sensory_input self t uuid now) = run_cycle ?s"
    by (simp add: process_stored [OF assms(2)])
  have mem: "input_belief t \<in> beliefs ?s"
    by (simp add: update_beliefs_beliefs split: sum.splits)
  then have "beliefs ?s \<noteq> {}" by blast
  then have "deliberate ?s \<noteq> await_input" by (rule deliberate_not_await)
  with mem run show ?thesis
    by (simp add: run_cycle_fields get_beliefs_def get_current_intention_def)
qed

theorem stored_input_sets_intention_witness:
  "strip (lit ''Hello'') \<noteq> [] \<and>
   fst (add_memory (codex (init empty_codex)) (lit ''Hello'') (Some sensory_metadata) (lit ''id1'') 0)
     = Inr \<lparr>mem_id = lit ''id1'', content = lit ''Hello'', embedding = [5, 1],
            metadata = sensory_metadata, timestamp = 0\<rparr> \<and>
   input_belief (lit ''Hello'') \<in>
     get_beliefs (snd (process_sensory_input (init empty_codex) (lit ''Hello'') (lit ''id1'') 0)) \<and>
   get_current_intention (snd (process_sensory_input (init empty_codex) (lit ''Hello'') (lit ''id1'') 0))
     \<noteq> Some await_input"
proof -
  have stored: "add_memory (codex (init empty_codex)) (lit ''Hello'') (Some sensory_metadata)
      (lit ''id1'') 0 =
     (Inr \<lparr>mem_id = lit ''id1'', content = lit ''Hello'', embedding = [5, 1],
            metadata = sensory_metadata, timestamp = 0\<rparr>,
      empty_codex\<lparr>collection :=
         [\<lparr>row_id = lit ''id1'', row_embedding = [5, 1], row_document = lit ''Hello'',
           row_metadata = [lit ''timestamp'' \<mapsto> MFloat 0] ++ sensory_metadata\<rparr>]\<rparr>)"
    by (simp add: init_def empty_add)
  from stored_input_sets_intention [OF nonblank_Hello stored] nonblank_Hello stored
  show ?thesis by simp
qed

end
